theory Spec2Isabelle
  imports Main
begin

section \<open>Values on the wire\<close>

text \<open>
  The server of \<^verbatim>\<open>lib/server.js\<close> exchanges JSON text with its clients: it decodes
  every inbound frame with \<^verbatim>\<open>JSON.parse\<close> and encodes every proxied upstream event with
  \<^verbatim>\<open>JSON.stringify\<close>. A decoded value is one of the six JSON kinds. Numbers are
  modelled by the integers (a JavaScript number is a double; the fractional and
  exponent forms are outside this model), strings by lists of 8-bit characters, and an
  object by the list of its own properties in enumeration order.
\<close>

datatype json =
    JNull
  | JBool bool
  | JNum int
  | JStr string
  | JArr "json list"
  | JObj "(string \<times> json) list"

datatype error = TypeError | SyntaxError

subsection \<open>Decimal digits\<close>

definition digit_char :: "int \<Rightarrow> char" where
  "digit_char d = char_of (48 + d)"

function show_digits :: "int \<Rightarrow> string" where
  "show_digits n =
     (if n < 10 then [digit_char n] else show_digits (n div 10) @ [digit_char (n mod 10)])"
  by pat_completeness auto
termination
  by (relation "measure nat") auto

declare show_digits.simps [simp del]

definition show_int :: "int \<Rightarrow> string" where
  "show_int i = (if i < 0 then CHR ''-'' # show_digits (- i) else show_digits i)"

subsection \<open>\<^verbatim>\<open>JSON.stringify\<close>\<close>

definition hex_char :: "nat \<Rightarrow> char" where
  "hex_char d = (if d < 10 then char_of (48 + d) else char_of (87 + d))"

text \<open>
  \<^verbatim>\<open>QuoteJSONString\<close>: the quotation mark and the reverse solidus are escaped, the five
  control characters with a short form use it, every other character below U+0020 is
  written as a \<^verbatim>\<open>\u00XX\<close> escape with lower-case hexadecimal digits, and everything else is
  copied.
\<close>

definition quote_char :: "char \<Rightarrow> string" where
  "quote_char c =
     (if c = CHR ''\"'' then [CHR 0x5C, CHR ''\"'']
      else if c = CHR 0x5C then [CHR 0x5C, CHR 0x5C]
      else if c = CHR 0x08 then [CHR 0x5C, CHR ''b'']
      else if c = CHR 0x09 then [CHR 0x5C, CHR ''t'']
      else if c = CHR 0x0A then [CHR 0x5C, CHR ''n'']
      else if c = CHR 0x0C then [CHR 0x5C, CHR ''f'']
      else if c = CHR 0x0D then [CHR 0x5C, CHR ''r'']
      else if (of_char c :: nat) < 32
        then [CHR 0x5C, CHR ''u'', CHR ''0'', CHR ''0'',
              hex_char (of_char c div 16), hex_char (of_char c mod 16)]
      else [c])"

definition quote_string :: "string \<Rightarrow> string" where
  "quote_string s = CHR ''\"'' # concat (map quote_char s) @ [CHR ''\"'']"

fun intercalate :: "string \<Rightarrow> string list \<Rightarrow> string" where
  "intercalate sep [] = []"
| "intercalate sep [x] = x"
| "intercalate sep (x # y # ys) = x @ sep @ intercalate sep (y # ys)"

fun JSON_stringify :: "json \<Rightarrow> string"
  and stringify_elems :: "json list \<Rightarrow> string list"
  and stringify_props :: "(string \<times> json) list \<Rightarrow> string list" where
  "JSON_stringify JNull = ''null''"
| "JSON_stringify (JBool b) = (if b then ''true'' else ''false'')"
| "JSON_stringify (JNum i) = show_int i"
| "JSON_stringify (JStr s) = quote_string s"
| "JSON_stringify (JArr xs) = ''['' @ intercalate '','' (stringify_elems xs) @ '']''"
| "JSON_stringify (JObj kvs) = ''{'' @ intercalate '','' (stringify_props kvs) @ ''}''"
| "stringify_elems [] = []"
| "stringify_elems (x # xs) = JSON_stringify x # stringify_elems xs"
| "stringify_props [] = []"
| "stringify_props (kv # kvs) =
     (quote_string (fst kv) @ '':'' @ JSON_stringify (snd kv)) # stringify_props kvs"

subsection \<open>\<^verbatim>\<open>JSON.parse\<close>\<close>

text \<open>
  The text is first cut into tokens. White space between tokens is skipped; a string
  token holds the characters that the literal denotes; a number token holds the value of
  an integer literal. A literal with a fraction or an exponent, and a \<^verbatim>\<open>\u\<close> escape above
  U+00FF, are outside the model and are not lexed.
\<close>

datatype token =
    LBracket | RBracket | LBrace | RBrace | Comma | Colon
  | TNull | TTrue | TFalse | TNum int | TStr string

definition is_space :: "char \<Rightarrow> bool" where
  "is_space c = (c = CHR '' '' \<or> c = CHR 0x09 \<or> c = CHR 0x0A \<or> c = CHR 0x0D)"

definition is_digit :: "char \<Rightarrow> bool" where
  "is_digit c = (48 \<le> (of_char c :: int) \<and> (of_char c :: int) \<le> 57)"

definition digit_val :: "char \<Rightarrow> int" where
  "digit_val c = of_char c - 48"

definition int_of_digits :: "string \<Rightarrow> int" where
  "int_of_digits ds = foldl (\<lambda>n c. 10 * n + digit_val c) 0 ds"

definition hex_val :: "char \<Rightarrow> nat option" where
  "hex_val c =
     (let n = (of_char c :: nat)
      in if 48 \<le> n \<and> n \<le> 57 then Some (n - 48)
         else if 97 \<le> n \<and> n \<le> 102 then Some (n - 87)
         else if 65 \<le> n \<and> n \<le> 70 then Some (n - 55)
         else None)"

definition unescape :: "char \<Rightarrow> char option" where
  "unescape e =
     (if e = CHR ''\"'' then Some CHR ''\"''
      else if e = CHR 0x5C then Some CHR 0x5C
      else if e = CHR ''/'' then Some CHR ''/''
      else if e = CHR ''b'' then Some CHR 0x08
      else if e = CHR ''f'' then Some CHR 0x0C
      else if e = CHR ''n'' then Some CHR 0x0A
      else if e = CHR ''r'' then Some CHR 0x0D
      else if e = CHR ''t'' then Some CHR 0x09
      else None)"

definition unicode4 :: "char \<Rightarrow> char \<Rightarrow> char \<Rightarrow> char \<Rightarrow> char option" where
  "unicode4 a b c d =
     (case (hex_val a, hex_val b, hex_val c, hex_val d) of
        (Some h3, Some h2, Some h1, Some h0) \<Rightarrow>
          (if h3 = 0 \<and> h2 = 0 then Some (char_of (16 * h1 + h0)) else None)
      | _ \<Rightarrow> None)"

definition cons_string :: "char \<Rightarrow> (string \<times> string) option \<Rightarrow> (string \<times> string) option" where
  "cons_string c r = (case r of None \<Rightarrow> None | Some (s, rest) \<Rightarrow> Some (c # s, rest))"

text \<open>
  The characters of a string literal, from just after the opening quotation mark up to
  the closing one; the result is the string denoted and the text that follows.
\<close>

fun lex_string :: "string \<Rightarrow> (string \<times> string) option" where
  "lex_string [] = None"
| "lex_string (c # cs) =
     (if c = CHR ''\"'' then Some ([], cs)
      else if c = CHR 0x5C then
        (case cs of
           [] \<Rightarrow> None
         | e # r \<Rightarrow>
             if e = CHR ''u'' then
               (case r of
                  h3 # h2 # h1 # h0 # r' \<Rightarrow>
                    (case unicode4 h3 h2 h1 h0 of
                       None \<Rightarrow> None
                     | Some x \<Rightarrow> cons_string x (lex_string r'))
                | _ \<Rightarrow> None)
             else
               (case unescape e of
                  None \<Rightarrow> None
                | Some x \<Rightarrow> cons_string x (lex_string r)))
      else if (of_char c :: nat) < 32 then None
      else cons_string c (lex_string cs))"

text \<open>
  An integer literal without its sign: one or more digits, no leading zero before
  another digit, and neither a fraction nor an exponent after it.
\<close>

definition lex_number :: "string \<Rightarrow> (int \<times> string) option" where
  "lex_number s =
     (let ds = takeWhile is_digit s; r = dropWhile is_digit s
      in if ds = [] then None
         else if 1 < length ds \<and> hd ds = CHR ''0'' then None
         else if r \<noteq> [] \<and> (hd r = CHR ''.'' \<or> hd r = CHR ''e'' \<or> hd r = CHR ''E'') then None
         else Some (int_of_digits ds, r))"

definition lex_word :: "string \<Rightarrow> token \<Rightarrow> string \<Rightarrow> (token \<times> string) option" where
  "lex_word w t s = (if take (length w) s = w then Some (t, drop (length w) s) else None)"

definition lex_token :: "char \<Rightarrow> string \<Rightarrow> (token \<times> string) option" where
  "lex_token c cs =
     (if c = CHR ''['' then Some (LBracket, cs)
      else if c = CHR '']'' then Some (RBracket, cs)
      else if c = CHR ''{'' then Some (LBrace, cs)
      else if c = CHR ''}'' then Some (RBrace, cs)
      else if c = CHR '','' then Some (Comma, cs)
      else if c = CHR '':'' then Some (Colon, cs)
      else if c = CHR ''\"'' then
        (case lex_string cs of None \<Rightarrow> None | Some (s, r) \<Rightarrow> Some (TStr s, r))
      else if c = CHR ''-'' then
        (case lex_number cs of None \<Rightarrow> None | Some (n, r) \<Rightarrow> Some (TNum (- n), r))
      else if is_digit c then
        (case lex_number (c # cs) of None \<Rightarrow> None | Some (n, r) \<Rightarrow> Some (TNum n, r))
      else if c = CHR ''n'' then lex_word ''ull'' TNull cs
      else if c = CHR ''t'' then lex_word ''rue'' TTrue cs
      else if c = CHR ''f'' then lex_word ''alse'' TFalse cs
      else None)"

lemma lex_string_shorter: "lex_string s = Some (x, r) \<Longrightarrow> length r < length s"
  by (induction s arbitrary: x r rule: lex_string.induct)
     (fastforce simp: cons_string_def split: if_splits list.splits option.splits)+

lemma lex_number_shorter: "lex_number s = Some (n, r) \<Longrightarrow> length r \<le> length s"
  by (auto simp: lex_number_def Let_def length_dropWhile_le split: if_splits)

lemma lex_number_digit_shorter:
  "is_digit c \<Longrightarrow> lex_number (c # cs) = Some (n, r) \<Longrightarrow> length r \<le> length cs"
  by (auto simp: lex_number_def Let_def length_dropWhile_le split: if_splits)

lemma lex_token_shorter: "lex_token c cs = Some (t, r) \<Longrightarrow> length r \<le> length cs"
  by (auto simp: lex_token_def lex_word_def
           dest: lex_string_shorter lex_number_shorter lex_number_digit_shorter
           split: if_splits option.splits)

function tokenize :: "string \<Rightarrow> token list option" where
  "tokenize [] = Some []"
| "tokenize (c # cs) =
     (if is_space c then tokenize cs
      else (case lex_token c cs of
              None \<Rightarrow> None
            | Some (t, r) \<Rightarrow> (case tokenize r of None \<Rightarrow> None | Some ts \<Rightarrow> Some (t # ts))))"
  by pat_completeness auto
termination
  by (relation "measure length") (auto dest: lex_token_shorter)

text \<open>
  The tokens drive a stack machine. A frame of the stack is an array or an object under
  construction; an object frame may hold the key whose value is being read.
\<close>

type_synonym props = "(string \<times> json) list"

text \<open>
  Creating a property on an object: an existing key keeps its place and takes the new
  value; a new array-index key goes among the index keys in ascending order, ahead of
  every other key; any other new key goes last. This is the order in which the
  properties of an object are enumerated.
\<close>

definition is_index :: "string \<Rightarrow> bool" where
  "is_index k =
     (k \<noteq> [] \<and> list_all is_digit k \<and> (length k = 1 \<or> hd k \<noteq> CHR ''0'') \<and>
      int_of_digits k < 4294967295)"

definition precedes :: "string \<Rightarrow> string \<Rightarrow> bool" where
  "precedes a b = (is_index a \<and> (\<not> is_index b \<or> int_of_digits a < int_of_digits b))"

fun define_prop :: "string \<Rightarrow> json \<Rightarrow> props \<Rightarrow> props" where
  "define_prop k v [] = [(k, v)]"
| "define_prop k v (p # ps) =
     (if fst p = k then (k, v) # ps
      else if precedes k (fst p) then (k, v) # p # ps
      else p # define_prop k v ps)"

datatype frame = Arr "json list" | Obj props | ObjKey props string

datatype phase =
    ExpValue | ExpValueOrClose | ExpKey | ExpKeyOrClose | ExpColon | ExpCommaOrClose
  | Finished json

type_synonym config = "phase \<times> frame list"

text \<open>A value is complete: it is the result, or it goes into the frame on top.\<close>

fun finish :: "json \<Rightarrow> frame list \<Rightarrow> config option" where
  "finish v [] = Some (Finished v, [])"
| "finish v (Arr xs # st) = Some (ExpCommaOrClose, Arr (xs @ [v]) # st)"
| "finish v (ObjKey ps k # st) = Some (ExpCommaOrClose, Obj (define_prop k v ps) # st)"
| "finish v (Obj ps # st) = None"

fun scalar :: "token \<Rightarrow> json option" where
  "scalar TNull = Some JNull"
| "scalar TTrue = Some (JBool True)"
| "scalar TFalse = Some (JBool False)"
| "scalar (TNum i) = Some (JNum i)"
| "scalar (TStr s) = Some (JStr s)"
| "scalar _ = None"

definition feed_value :: "bool \<Rightarrow> token \<Rightarrow> frame list \<Rightarrow> config option" where
  "feed_value may_close t st =
     (case scalar t of
        Some v \<Rightarrow> finish v st
      | None \<Rightarrow>
          (case t of
             LBracket \<Rightarrow> Some (ExpValueOrClose, Arr [] # st)
           | LBrace \<Rightarrow> Some (ExpKeyOrClose, Obj [] # st)
           | RBracket \<Rightarrow>
               (case st of
                  Arr xs # st' \<Rightarrow> if may_close then finish (JArr xs) st' else None
                | _ \<Rightarrow> None)
           | _ \<Rightarrow> None))"

definition feed_key :: "bool \<Rightarrow> token \<Rightarrow> frame list \<Rightarrow> config option" where
  "feed_key may_close t st =
     (case st of
        Obj ps # st' \<Rightarrow>
          (case t of
             TStr k \<Rightarrow> Some (ExpColon, ObjKey ps k # st')
           | RBrace \<Rightarrow> if may_close then finish (JObj ps) st' else None
           | _ \<Rightarrow> None)
      | _ \<Rightarrow> None)"

definition feed_separator :: "token \<Rightarrow> frame list \<Rightarrow> config option" where
  "feed_separator t st =
     (case st of
        Arr xs # st' \<Rightarrow>
          (case t of
             Comma \<Rightarrow> Some (ExpValue, st)
           | RBracket \<Rightarrow> finish (JArr xs) st'
           | _ \<Rightarrow> None)
      | Obj ps # st' \<Rightarrow>
          (case t of
             Comma \<Rightarrow> Some (ExpKey, st)
           | RBrace \<Rightarrow> finish (JObj ps) st'
           | _ \<Rightarrow> None)
      | _ \<Rightarrow> None)"

fun feed :: "token \<Rightarrow> config \<Rightarrow> config option" where
  "feed t (ExpValue, st) = feed_value False t st"
| "feed t (ExpValueOrClose, st) = feed_value True t st"
| "feed t (ExpKey, st) = feed_key False t st"
| "feed t (ExpKeyOrClose, st) = feed_key True t st"
| "feed t (ExpColon, st) = (if t = Colon then Some (ExpValue, st) else None)"
| "feed t (ExpCommaOrClose, st) = feed_separator t st"
| "feed t (Finished v, st) = None"

fun feed_all :: "token list \<Rightarrow> config \<Rightarrow> config option" where
  "feed_all [] c = Some c"
| "feed_all (t # ts) c = (case feed t c of None \<Rightarrow> None | Some c' \<Rightarrow> feed_all ts c')"

text \<open>\<^verbatim>\<open>JSON.parse\<close>: \<open>None\<close> where it throws a SyntaxError.\<close>

definition JSON_parse :: "string \<Rightarrow> json option" where
  "JSON_parse s =
     (case tokenize s of
        None \<Rightarrow> None
      | Some ts \<Rightarrow>
          (case feed_all ts (ExpValue, []) of
             Some (Finished v, []) \<Rightarrow> Some v
           | _ \<Rightarrow> None))"

subsection \<open>Values that the codec represents\<close>



section \<open>The command table\<close>

text \<open>
  \<^verbatim>\<open>COMMANDS\<close> is an object literal with seven own properties, each bound to the handler
  exported by one module under \<^verbatim>\<open>lib/cmds\<close>. The handlers themselves are opaque here: the
  model records that one was called, and with which arguments.
\<close>

datatype command = ExecBT | GetBTs | GetMarkets | GetCandles | GetTrades | SubmitBT | ProxyBFXMessage

text \<open>
  An object literal inherits from \<^verbatim>\<open>Object.prototype\<close>, whose properties are built-in
  functions, apart from the accessor \<^verbatim>\<open>__proto__\<close>, whose getter returns the prototype
  object itself.
\<close>

datatype builtin =
    Object_constructor
  | Object_defineGetter
  | Object_defineSetter
  | Object_hasOwnProperty
  | Object_lookupGetter
  | Object_lookupSetter
  | Object_isPrototypeOf
  | Object_propertyIsEnumerable
  | Object_toString
  | Object_valueOf
  | Object_toLocaleString

datatype func = Cmd command | Builtin builtin

datatype slot = Undefined | Function func | NonFunction

definition COMMANDS_own :: "(string \<times> command) list" where
  "COMMANDS_own =
     [(''exec.bt'', ExecBT),
      (''get.bts'', GetBTs),
      (''get.markets'', GetMarkets),
      (''get.candles'', GetCandles),
      (''get.trades'', GetTrades),
      (''submit.bt'', SubmitBT),
      (''bfx'', ProxyBFXMessage)]"

definition Object_prototype :: "(string \<times> slot) list" where
  "Object_prototype =
     [(''constructor'', Function (Builtin Object_constructor)),
      (''__defineGetter__'', Function (Builtin Object_defineGetter)),
      (''__defineSetter__'', Function (Builtin Object_defineSetter)),
      (''hasOwnProperty'', Function (Builtin Object_hasOwnProperty)),
      (''__lookupGetter__'', Function (Builtin Object_lookupGetter)),
      (''__lookupSetter__'', Function (Builtin Object_lookupSetter)),
      (''isPrototypeOf'', Function (Builtin Object_isPrototypeOf)),
      (''propertyIsEnumerable'', Function (Builtin Object_propertyIsEnumerable)),
      (''toString'', Function (Builtin Object_toString)),
      (''valueOf'', Function (Builtin Object_valueOf)),
      (''__proto__'', NonFunction),
      (''toLocaleString'', Function (Builtin Object_toLocaleString))]"

text \<open>
  \<^verbatim>\<open>COMMANDS[key]\<close> for a string key: the own property if there is one, otherwise the
  property found on the prototype, otherwise \<^verbatim>\<open>undefined\<close>.
\<close>

definition COMMANDS_get :: "string \<Rightarrow> slot" where
  "COMMANDS_get key =
     (case map_of COMMANDS_own key of
        Some h \<Rightarrow> Function (Cmd h)
      | None \<Rightarrow> (case map_of Object_prototype key of Some p \<Rightarrow> p | None \<Rightarrow> Undefined))"

text \<open>
  The key of \<^verbatim>\<open>COMMANDS[cmd]\<close> is \<^verbatim>\<open>cmd\<close> converted to a string. For a decoded JSON
  value: a string is itself; an array is its elements joined by commas, \<^verbatim>\<open>null\<close>
  elements giving the empty string; an object without an own \<^verbatim>\<open>toString\<close> property is
  \<^verbatim>\<open>[object Object]\<close>. An own \<^verbatim>\<open>toString\<close> property of a decoded object is never
  callable, and \<^verbatim>\<open>valueOf\<close> then yields no primitive either, so the conversion throws
  a TypeError (\<open>None\<close>).
\<close>

fun ToString :: "json \<Rightarrow> string option"
  and ToString_elems :: "json list \<Rightarrow> string list option" where
  "ToString JNull = Some ''null''"
| "ToString (JBool b) = Some (if b then ''true'' else ''false'')"
| "ToString (JNum i) = Some (show_int i)"
| "ToString (JStr s) = Some s"
| "ToString (JArr xs) = map_option (intercalate '','') (ToString_elems xs)"
| "ToString (JObj kvs) =
     (if ''toString'' \<in> set (map fst kvs) then None else Some ''[object Object]'')"
| "ToString_elems [] = Some []"
| "ToString_elems (x # xs) =
     (case (if x = JNull then Some [] else ToString x) of
        None \<Rightarrow> None
      | Some a \<Rightarrow> (case ToString_elems xs of None \<Rightarrow> None | Some as \<Rightarrow> Some (a # as)))"

text \<open>\<^verbatim>\<open>undefined\<close>, the value of \<^verbatim>\<open>cmd\<close> for an empty array, is \<open>None\<close> here.\<close>

definition ToPropertyKey :: "json option \<Rightarrow> string option" where
  "ToPropertyKey v = (case v of None \<Rightarrow> Some ''undefined'' | Some j \<Rightarrow> ToString j)"

text \<open>
  What a built-in of \<^verbatim>\<open>Object.prototype\<close> does when it is called the way a handler is
  called, \<^verbatim>\<open>handler(this, ws, msg, clientID)\<close> in strict code: its receiver is
  \<^verbatim>\<open>undefined\<close> and its first argument is the server object. \<^verbatim>\<open>Object\<close> returns its
  argument and \<^verbatim>\<open>toString\<close> returns \<^verbatim>\<open>[object Undefined]\<close>; every other one converts
  the receiver to an object and throws a TypeError.
\<close>

fun builtin_throws :: "builtin \<Rightarrow> bool" where
  "builtin_throws Object_constructor = False"
| "builtin_throws Object_toString = False"
| "builtin_throws _ = True"

section \<open>The server\<close>

type_synonym clientID = nat
type_synonym ws = nat
type_synonym proxy = nat

text \<open>
  Calls that leave the server (to the \<^verbatim>\<open>debug\<close> logger, a client socket, an upstream
  \<^verbatim>\<open>WSv2\<close> session, the listening \<^verbatim>\<open>WS.Server\<close>, or a handler) are appended to a log in
  the order in which they are made.
\<close>

datatype effect =
    Debug string
  | RestNew
  | WssNew nat
  | WssOn string
  | WsOn ws string clientID
  | WsSend ws string
  | ProxyNew proxy
  | ProxyOpen proxy
  | ProxyAuth proxy
  | ProxyClose proxy
  | WssClose
  | Call func "ws option" json clientID

record params =
  url :: "string option"
  apiKey :: "string option"
  apiSecret :: "string option"
  transform :: "bool option"
  agent :: "string option"

text \<open>
  The listeners that \<^verbatim>\<open>openBFXProxy\<close> installs on a session are closures over
  \<^verbatim>\<open>clientID\<close>; the \<^verbatim>\<open>once('open')\<close> listener is removed when it first runs.
\<close>

record session =
  client :: clientID
  once_open :: bool

record server =
  wssClients :: "clientID \<rightharpoonup> ws"
  bfxProxies :: "clientID \<rightharpoonup> proxy"
  bfxProxyEnabled :: bool
  bfxProxyParams :: params
  sessions :: "proxy \<rightharpoonup> session"
  next_proxy :: proxy
  effects :: "effect list"

datatype outcome = Returned | Threw error | Handled command

definition emit :: "effect \<Rightarrow> server \<Rightarrow> server" where
  "emit e s = s\<lparr>effects := effects s @ [e]\<rparr>"

record server_args =
  arg_apiKey :: "string option"
  arg_apiSecret :: "string option"
  arg_agent :: "string option"
  arg_restURL :: "string option"
  arg_wsURL :: "string option"
  arg_transform :: "bool option"
  arg_proxy :: bool
  arg_port :: nat

definition DataServer :: "server_args \<Rightarrow> server" where
  "DataServer a =
     \<lparr>wssClients = Map.empty,
      bfxProxies = Map.empty,
      bfxProxyEnabled = arg_proxy a,
      bfxProxyParams =
        \<lparr>url = arg_wsURL a, apiKey = arg_apiKey a, apiSecret = arg_apiSecret a,
         transform = arg_transform a, agent = arg_agent a\<rparr>,
      sessions = Map.empty,
      next_proxy = 0,
      effects =
        [RestNew, WssNew (arg_port a), WssOn ''connection'',
         Debug ''websocket API open on port %d'']\<rparr>"


text \<open>A string is truthy when it is not empty; \<^verbatim>\<open>undefined\<close> is falsy.\<close>

definition truthy :: "string option \<Rightarrow> bool" where
  "truthy v = (case v of None \<Rightarrow> False | Some x \<Rightarrow> x \<noteq> [])"

subsection \<open>\<^verbatim>\<open>openBFXProxy\<close> and the listeners it installs\<close>

definition openBFXProxy :: "clientID \<Rightarrow> server \<Rightarrow> proxy \<times> server" where
  "openBFXProxy clientID s =
     (let p = next_proxy s;
          s1 = emit (ProxyNew p) (s\<lparr>next_proxy := Suc p\<rparr>);
          s2 = s1\<lparr>sessions := (sessions s1)(p \<mapsto> \<lparr>client = clientID, once_open = True\<rparr>)\<rparr>;
          s3 = emit (ProxyOpen p) s2
      in (p, s3))"

definition encode :: "string \<Rightarrow> json \<Rightarrow> string" where
  "encode tag payload = JSON_stringify (JArr [JStr tag, payload])"

text \<open>
  The \<^verbatim>\<open>message\<close> listener. \<open>readyState\<close> is what the transport reports for each
  socket when the event arrives. Reading \<^verbatim>\<open>ws.readyState\<close> when \<^verbatim>\<open>ws\<close> is
  \<^verbatim>\<open>undefined\<close> throws a TypeError.
\<close>

definition on_message :: "(ws \<Rightarrow> nat) \<Rightarrow> clientID \<Rightarrow> json \<Rightarrow> server \<Rightarrow> outcome \<times> server" where
  "on_message readyState clientID msg s =
     (case wssClients s clientID of
        None \<Rightarrow> (Threw TypeError, s)
      | Some w \<Rightarrow>
          if readyState w \<noteq> 1 then (Returned, s)
          else (Returned,
                emit (WsSend w (encode ''bfx'' msg))
                  (emit (Debug ''proxying message %j to client %s'') s)))"

text \<open>
  The two \<^verbatim>\<open>open\<close> listeners run in the order of their registration: the logging one, then
  the one registered with \<^verbatim>\<open>once\<close>.
\<close>

definition on_open :: "proxy \<Rightarrow> server \<Rightarrow> server" where
  "on_open p s =
     (let s1 = emit (Debug ''bfx proxy connection opened'') s
      in case sessions s1 p of
           None \<Rightarrow> s1
         | Some x \<Rightarrow>
             if once_open x then
               (let s2 = s1\<lparr>sessions := (sessions s1)(p \<mapsto> x\<lparr>once_open := False\<rparr>)\<rparr>
                in if truthy (apiKey (bfxProxyParams s2)) \<and> truthy (apiSecret (bfxProxyParams s2))
                   then emit (ProxyAuth p) s2 else s2)
             else s1)"

definition on_auth :: "server \<Rightarrow> server" where
  "on_auth s = emit (Debug ''bfx proxy connection authenticated'') s"

definition on_close :: "server \<Rightarrow> server" where
  "on_close s = emit (Debug ''bfx proxy connection closed'') s"

text \<open>The events a session can emit, delivered to the listeners installed on it.\<close>

datatype upstream = Message json | Open | Auth | Close

definition proxy_emit :: "(ws \<Rightarrow> nat) \<Rightarrow> proxy \<Rightarrow> upstream \<Rightarrow> server \<Rightarrow> outcome \<times> server" where
  "proxy_emit readyState p ev s =
     (case sessions s p of
        None \<Rightarrow> (Returned, s)
      | Some x \<Rightarrow>
          (case ev of
             Message msg \<Rightarrow> on_message readyState (client x) msg s
           | Open \<Rightarrow> (Returned, on_open p s)
           | Auth \<Rightarrow> (Returned, on_auth s)
           | Close \<Rightarrow> (Returned, on_close s)))"

subsection \<open>Accepting and releasing a client\<close>

text \<open>
  Modelled from the spec: the helper \<^verbatim>\<open>send\<close> of \<^verbatim>\<open>lib/wss/send.js\<close>, whose source is
  missing. A frame is an ordered sequence serialised as text, and sending one hands that
  text to the client's socket.
\<close>

definition send :: "ws \<Rightarrow> json \<Rightarrow> server \<Rightarrow> server" where
  "send w msg s = emit (WsSend w (JSON_stringify msg)) s"

text \<open>
  \<^verbatim>\<open>onWSConnected\<close>. The identifier is the value that the library function \<^verbatim>\<open>nonce()\<close>
  returned for this connection.
\<close>

definition onWSConnected :: "ws \<Rightarrow> clientID \<Rightarrow> server \<Rightarrow> server" where
  "onWSConnected w clientID s =
     (let s1 = emit (Debug ''ws client connected'') s;
          s2 = s1\<lparr>wssClients := (wssClients s1)(clientID \<mapsto> w)\<rparr>;
          s3 = emit (WsOn w ''message'' clientID) s2;
          s4 = emit (WsOn w ''close'' clientID) s3;
          s5 = (if bfxProxyEnabled s4
                then (case openBFXProxy clientID s4 of
                        (p, t) \<Rightarrow> t\<lparr>bfxProxies := (bfxProxies t)(clientID \<mapsto> p)\<rparr>)
                else s4)
      in send w (JArr [JStr ''connected'']) s5)"

text \<open>
  \<^verbatim>\<open>onWSDisconnected\<close>, statement by statement: the list holds the state after each
  statement that runs, in order. A session object is always truthy, so the test of
  \<^verbatim>\<open>this.bfxProxies[clientID]\<close> is a test for presence.
\<close>

definition onWSDisconnected_steps :: "clientID \<Rightarrow> server \<Rightarrow> server list" where
  "onWSDisconnected_steps clientID s =
     (let s1 = emit (Debug ''ws client %s disconnected'') s;
          s2 = s1\<lparr>wssClients := (wssClients s1)(clientID := None)\<rparr>
      in case bfxProxies s2 clientID of
           None \<Rightarrow> [s1, s2]
         | Some p \<Rightarrow>
             (let s3 = emit (ProxyClose p) s2;
                  s4 = s3\<lparr>bfxProxies := (bfxProxies s3)(clientID := None)\<rparr>
              in [s1, s2, s3, s4]))"

definition onWSDisconnected :: "clientID \<Rightarrow> server \<Rightarrow> server" where
  "onWSDisconnected clientID s = last (onWSDisconnected_steps clientID s)"

subsection \<open>Inbound frames\<close>

text \<open>
  \<^verbatim>\<open>onWSMessage\<close>. \<open>parse\<close> stands for \<^verbatim>\<open>JSON.parse\<close>, with \<open>None\<close> where it throws; the
  exception is caught and leaves \<^verbatim>\<open>msg\<close> undefined. The frame is an array from
  \<open>dispatch\<close> on: \<^verbatim>\<open>cmd\<close> is its first element or \<^verbatim>\<open>undefined\<close>, the handler is looked up
  under \<^verbatim>\<open>cmd\<close> converted to a property key, and whatever the lookup yields is called when
  it is a function.
\<close>

definition call :: "func \<Rightarrow> ws option \<Rightarrow> json \<Rightarrow> clientID \<Rightarrow> server \<Rightarrow> outcome \<times> server" where
  "call f w msg clientID s =
     (let s1 = emit (Call f w msg clientID) s
      in case f of
           Cmd c \<Rightarrow> (Handled c, s1)
         | Builtin b \<Rightarrow> (if builtin_throws b then Threw TypeError else Returned, s1))"

definition dispatch :: "clientID \<Rightarrow> json list \<Rightarrow> server \<Rightarrow> outcome \<times> server" where
  "dispatch clientID xs s =
     (let cmd = (case xs of [] \<Rightarrow> None | x # _ \<Rightarrow> Some x)
      in case ToPropertyKey cmd of
           None \<Rightarrow> (Threw TypeError, s)
         | Some key \<Rightarrow>
             (let handler = COMMANDS_get key;
                  w = wssClients s clientID
              in case handler of
                   Function f \<Rightarrow> call f w (JArr xs) clientID s
                 | _ \<Rightarrow> (Returned, emit (Debug ''received unknown command: %s'') s)))"

definition onWSMessage ::
  "(string \<Rightarrow> json option) \<Rightarrow> clientID \<Rightarrow> string \<Rightarrow> server \<Rightarrow> outcome \<times> server" where
  "onWSMessage parse clientID msgJSON s =
     (let (msg, s1) =
            (case parse msgJSON of
               None \<Rightarrow> (None, emit (Debug ''error reading ws client msg: %s'') s)
             | Some v \<Rightarrow> (Some v, s))
      in case msg of
           Some (JArr xs) \<Rightarrow> dispatch clientID xs s1
         | _ \<Rightarrow> (Returned, emit (Debug ''ws client msg not an array: %j'') s1))"

subsection \<open>Runs of connections and disconnections\<close>

datatype lifecycle = Connect ws clientID | Disconnect clientID

fun step :: "lifecycle \<Rightarrow> server \<Rightarrow> server" where
  "step (Connect w clientID) s = onWSConnected w clientID s"
| "step (Disconnect clientID) s = onWSDisconnected clientID s"

fun run :: "lifecycle list \<Rightarrow> server \<Rightarrow> server" where
  "run [] s = s"
| "run (e # es) s = run es (step e s)"

text \<open>
  \<^verbatim>\<open>nonce()\<close> is expected to return an identifier that no registered client holds: \<open>fresh\<close>
  says that every connection of a run got such an identifier.
\<close>

fun fresh :: "lifecycle list \<Rightarrow> server \<Rightarrow> bool" where
  "fresh [] s = True"
| "fresh (Connect w clientID # es) s =
     (wssClients s clientID = None \<and> fresh es (step (Connect w clientID) s))"
| "fresh (Disconnect clientID # es) s = fresh es (step (Disconnect clientID) s)"

text \<open>The frames handed to client sockets, and the sessions closed, in a log.\<close>

fun frames :: "effect list \<Rightarrow> (ws \<times> string) list" where
  "frames [] = []"
| "frames (WsSend w f # es) = (w, f) # frames es"
| "frames (_ # es) = frames es"

fun closes :: "effect list \<Rightarrow> proxy list" where
  "closes [] = []"
| "closes (ProxyClose p # es) = p # closes es"
| "closes (_ # es) = closes es"

definition isArray :: "json option \<Rightarrow> bool" where
  "isArray v = (case v of Some (JArr xs) \<Rightarrow> True | _ \<Rightarrow> False)"

text \<open>
  What holds of the two registries after any run when proxying is enabled: they have the
  same keys; a registered session was installed for the client it is registered under;
  sessions are numbered below the allocation counter; a session that was closed is no
  longer the registered session of its client; and no session was closed twice.
\<close>

definition registry_inv :: "server \<Rightarrow> bool" where
  "registry_inv s \<longleftrightarrow>
     (\<forall>c. (bfxProxies s c = None) = (wssClients s c = None)) \<and>
     (\<forall>c p. bfxProxies s c = Some p \<longrightarrow> (\<exists>x. sessions s p = Some x \<and> client x = c)) \<and>
     (\<forall>p. sessions s p \<noteq> None \<longrightarrow> p < next_proxy s) \<and>
     (\<forall>p \<in> set (closes (effects s)).
        \<exists>x. sessions s p = Some x \<and> bfxProxies s (client x) \<noteq> Some p) \<and>
     distinct (closes (effects s))"

text \<open>Every session that was not closed is the registered session of its client.\<close>

definition no_leak :: "server \<Rightarrow> bool" where
  "no_leak s \<longleftrightarrow>
     (\<forall>p x. sessions s p = Some x \<longrightarrow> p \<notin> set (closes (effects s)) \<longrightarrow>
        bfxProxies s (client x) = Some p)"




section \<open>Properties of the logs\<close>

lemma frames_append [simp]: "frames (xs @ ys) = frames xs @ frames ys"
  by (induction xs rule: frames.induct) simp_all

lemma closes_append [simp]: "closes (xs @ ys) = closes xs @ closes ys"
  by (induction xs rule: closes.induct) simp_all

section \<open>Shutting down\<close>


section \<open>Dispatch of inbound frames\<close>

lemma parse_toString: "JSON_parse ''[\"toString\"]'' = Some (JArr [JStr ''toString''])"
  by code_simp

lemma parse_bfx_array: "JSON_parse ''[[\"bfx\"]]'' = Some (JArr [JArr [JStr ''bfx'']])"
  by code_simp

lemma parse_valueOf: "JSON_parse ''[\"valueOf\"]'' = Some (JArr [JStr ''valueOf''])"
  by code_simp

lemma parse_toString_object:
  "JSON_parse ''[{\"toString\":0}]'' = Some (JArr [JObj [(''toString'', JNum 0)]])"
  by code_simp

text \<open>
  C10. The lookup \<^verbatim>\<open>COMMANDS[cmd]\<close> is a plain property access. The frame
  \<^verbatim>\<open>["toString"]\<close> names no own property of the table, yet the lookup yields the
  inherited built-in and the server calls it as a handler. The frame \<^verbatim>\<open>[["bfx"]]\<close> has
  an array as its first element; the array is converted to the key \<^verbatim>\<open>bfx\<close> and the
  server calls the handler registered under that name.
\<close>

theorem inherited_and_coerced_keys_reach_a_handler:
  "map_of COMMANDS_own ''toString'' = None \<and>
   COMMANDS_get ''toString'' = Function (Builtin Object_toString) \<and>
   onWSMessage JSON_parse c ''[\"toString\"]'' s =
     (Returned,
      emit (Call (Builtin Object_toString) (wssClients s c) (JArr [JStr ''toString'']) c) s) \<and>
   ToPropertyKey (Some (JArr [JStr ''bfx''])) = Some ''bfx'' \<and>
   COMMANDS_get ''bfx'' = Function (Cmd ProxyBFXMessage) \<and>
   onWSMessage JSON_parse c ''[[\"bfx\"]]'' s =
     (Handled ProxyBFXMessage,
      emit (Call (Cmd ProxyBFXMessage) (wssClients s c) (JArr [JArr [JStr ''bfx'']]) c) s)"
  by (simp add: onWSMessage_def dispatch_def call_def ToPropertyKey_def COMMANDS_get_def
        COMMANDS_own_def Object_prototype_def parse_toString parse_bfx_array)

text \<open>
  A first element whose key is neither a command nor the name of an inherited function
  takes the unknown-command branch: the server logs and returns.
\<close>

lemma unknown_command_only_logs:
  "ToPropertyKey (case xs of [] \<Rightarrow> None | x # _ \<Rightarrow> Some x) = Some key \<Longrightarrow>
   map_of COMMANDS_own key = None \<Longrightarrow>
   map_of Object_prototype key = None \<or> map_of Object_prototype key = Some NonFunction \<Longrightarrow>
   dispatch c xs s = (Returned, emit (Debug ''received unknown command: %s'') s)"
  by (auto simp: dispatch_def COMMANDS_get_def)

text \<open>
  C5. The frame \<^verbatim>\<open>["valueOf"]\<close> names none of the seven commands. The server does not
  take the unknown-command branch: it calls the inherited \<^verbatim>\<open>Object.prototype.valueOf\<close>
  as a handler, and the call throws a TypeError out of \<^verbatim>\<open>onWSMessage\<close>. The frame
  \<^verbatim>\<open>[{"toString":0}]\<close> throws already in the lookup, when its first element is converted
  to a property key.
\<close>

theorem inherited_name_throws_in_dispatch:
  "map_of COMMANDS_own ''valueOf'' = None \<and>
   onWSMessage JSON_parse c ''[\"valueOf\"]'' s =
     (Threw TypeError,
      emit (Call (Builtin Object_valueOf) (wssClients s c) (JArr [JStr ''valueOf'']) c) s) \<and>
   onWSMessage JSON_parse c ''[{\"toString\":0}]'' s = (Threw TypeError, s)"
  by (simp add: onWSMessage_def dispatch_def call_def ToPropertyKey_def COMMANDS_get_def
        COMMANDS_own_def Object_prototype_def parse_valueOf parse_toString_object)

section \<open>Inbound frames that are not arrays\<close>

lemma parse_open_brace: "JSON_parse ''{'' = None"
  by code_simp

lemma parse_five: "JSON_parse ''5'' = Some (JNum 5)"
  by code_simp

text \<open>
  C6. When \<^verbatim>\<open>JSON.parse\<close> throws, or yields something that is not an array, the handler
  only logs and returns: one debug line for the failed parse if there was one, one for
  the missing array. Both registries and all sessions are as before, no frame is sent,
  no session is closed, and nothing is thrown. This holds whatever the decoder is.
\<close>

theorem undecodable_frame_is_dropped:
  assumes "\<not> isArray (parse msgJSON)"
  shows "onWSMessage parse c msgJSON s =
           (Returned,
            s\<lparr>effects := effects s
                 @ (if parse msgJSON = None then [Debug ''error reading ws client msg: %s''] else [])
                 @ [Debug ''ws client msg not an array: %j'']\<rparr>) \<and>
         wssClients (snd (onWSMessage parse c msgJSON s)) = wssClients s \<and>
         bfxProxies (snd (onWSMessage parse c msgJSON s)) = bfxProxies s \<and>
         sessions (snd (onWSMessage parse c msgJSON s)) = sessions s \<and>
         frames (effects (snd (onWSMessage parse c msgJSON s))) = frames (effects s) \<and>
         closes (effects (snd (onWSMessage parse c msgJSON s))) = closes (effects s)"
  using assms
  by (auto simp: onWSMessage_def isArray_def emit_def split: option.splits json.splits)

theorem undecodable_frame_is_dropped_witness:
  "\<not> isArray (JSON_parse ''{'') \<and>
   onWSMessage JSON_parse 7 ''{''
     \<lparr>wssClients = Map.empty, bfxProxies = Map.empty, bfxProxyEnabled = False,
      bfxProxyParams = \<lparr>url = None, apiKey = None, apiSecret = None, transform = None, agent = None\<rparr>,
      sessions = Map.empty, next_proxy = 0, effects = []\<rparr> =
     (Returned,
      \<lparr>wssClients = Map.empty, bfxProxies = Map.empty, bfxProxyEnabled = False,
       bfxProxyParams = \<lparr>url = None, apiKey = None, apiSecret = None, transform = None, agent = None\<rparr>,
       sessions = Map.empty, next_proxy = 0,
       effects = [Debug ''error reading ws client msg: %s'',
                  Debug ''ws client msg not an array: %j'']\<rparr>) \<and>
   \<not> isArray (JSON_parse ''5'') \<and>
   onWSMessage JSON_parse 7 ''5''
     \<lparr>wssClients = Map.empty, bfxProxies = Map.empty, bfxProxyEnabled = False,
      bfxProxyParams = \<lparr>url = None, apiKey = None, apiSecret = None, transform = None, agent = None\<rparr>,
      sessions = Map.empty, next_proxy = 0, effects = []\<rparr> =
     (Returned,
      \<lparr>wssClients = Map.empty, bfxProxies = Map.empty, bfxProxyEnabled = False,
       bfxProxyParams = \<lparr>url = None, apiKey = None, apiSecret = None, transform = None, agent = None\<rparr>,
       sessions = Map.empty, next_proxy = 0,
       effects = [Debug ''ws client msg not an array: %j'']\<rparr>)"
  using undecodable_frame_is_dropped [of JSON_parse "''{''" 7
      "\<lparr>wssClients = Map.empty, bfxProxies = Map.empty, bfxProxyEnabled = False,
        bfxProxyParams = \<lparr>url = None, apiKey = None, apiSecret = None, transform = None, agent = None\<rparr>,
        sessions = Map.empty, next_proxy = 0, effects = []\<rparr>"]
    undecodable_frame_is_dropped [of JSON_parse "''5''" 7
      "\<lparr>wssClients = Map.empty, bfxProxies = Map.empty, bfxProxyEnabled = False,
        bfxProxyParams = \<lparr>url = None, apiKey = None, apiSecret = None, transform = None, agent = None\<rparr>,
        sessions = Map.empty, next_proxy = 0, effects = []\<rparr>"]
  by (simp add: parse_open_brace parse_five isArray_def)

section \<open>Accepting and releasing clients\<close>

lemma openBFXProxy_creates:
  "openBFXProxy c s =
     (next_proxy s,
      s\<lparr>next_proxy := Suc (next_proxy s),
        sessions := (sessions s)(next_proxy s \<mapsto> \<lparr>client = c, once_open = True\<rparr>),
        effects := effects s @ [ProxyNew (next_proxy s), ProxyOpen (next_proxy s)]\<rparr>)"
  by (simp add: openBFXProxy_def emit_def Let_def)

lemma onWSConnected_fields:
  "wssClients (onWSConnected w c s) = (wssClients s)(c \<mapsto> w)"
  "bfxProxies (onWSConnected w c s) =
     (if bfxProxyEnabled s then (bfxProxies s)(c \<mapsto> next_proxy s) else bfxProxies s)"
  "sessions (onWSConnected w c s) =
     (if bfxProxyEnabled s
      then (sessions s)(next_proxy s \<mapsto> \<lparr>client = c, once_open = True\<rparr>) else sessions s)"
  "next_proxy (onWSConnected w c s) =
     (if bfxProxyEnabled s then Suc (next_proxy s) else next_proxy s)"
  "bfxProxyEnabled (onWSConnected w c s) = bfxProxyEnabled s"
  "closes (effects (onWSConnected w c s)) = closes (effects s)"
  by (simp_all add: onWSConnected_def openBFXProxy_creates send_def emit_def Let_def)

lemma onWSDisconnected_fields:
  "wssClients (onWSDisconnected c s) = (wssClients s)(c := None)"
  "bfxProxies (onWSDisconnected c s) = (bfxProxies s)(c := None)"
  "sessions (onWSDisconnected c s) = sessions s"
  "next_proxy (onWSDisconnected c s) = next_proxy s"
  "bfxProxyEnabled (onWSDisconnected c s) = bfxProxyEnabled s"
  "closes (effects (onWSDisconnected c s)) =
     closes (effects s) @ (case bfxProxies s c of None \<Rightarrow> [] | Some p \<Rightarrow> [p])"
  by (auto simp: onWSDisconnected_def onWSDisconnected_steps_def emit_def Let_def
        split: option.splits)


text \<open>
  C3. The statements of the disconnect handler, in the order in which they run. After the
  second one the client is gone from the client registry while its session is still
  registered and has not been closed. If there is a session, it is closed next, still
  registered, and only the last statement removes it from the proxy registry. If there
  is none, the handler stops after the second statement and closes nothing.
\<close>

theorem disconnect_unregisters_before_closing:
  "(case bfxProxies s c of
      None \<Rightarrow>
        (\<exists>s1 s2.
           onWSDisconnected_steps c s = [s1, s2] \<and>
           onWSDisconnected c s = s2 \<and>
           wssClients s1 = wssClients s \<and> bfxProxies s1 = bfxProxies s \<and>
           closes (effects s1) = closes (effects s) \<and>
           wssClients s2 = (wssClients s)(c := None) \<and> bfxProxies s2 = bfxProxies s \<and>
           closes (effects s2) = closes (effects s))
    | Some p \<Rightarrow>
        (\<exists>s1 s2 s3 s4.
           onWSDisconnected_steps c s = [s1, s2, s3, s4] \<and>
           onWSDisconnected c s = s4 \<and>
           wssClients s1 = wssClients s \<and> bfxProxies s1 = bfxProxies s \<and>
           closes (effects s1) = closes (effects s) \<and>
           wssClients s2 = (wssClients s)(c := None) \<and> bfxProxies s2 = bfxProxies s \<and>
           closes (effects s2) = closes (effects s) \<and>
           wssClients s3 = (wssClients s)(c := None) \<and> bfxProxies s3 = bfxProxies s \<and>
           closes (effects s3) = closes (effects s) @ [p] \<and>
           wssClients s4 = (wssClients s)(c := None) \<and>
           bfxProxies s4 = (bfxProxies s)(c := None) \<and>
           closes (effects s4) = closes (effects s) @ [p]))"
  by (simp add: onWSDisconnected_def onWSDisconnected_steps_def emit_def Let_def
        split: option.splits)

section \<open>One session for each registered client\<close>

lemma registry_inv_initial: "registry_inv (DataServer a)" "no_leak (DataServer a)"
  by (simp_all add: registry_inv_def no_leak_def DataServer_def)

lemma registry_inv_connect:
  assumes en: "bfxProxyEnabled s" and inv: "registry_inv s"
  shows "registry_inv (onWSConnected w c s)"
proof -
  let ?n = "next_proxy s"
  from inv have i1: "\<And>c. (bfxProxies s c = None) = (wssClients s c = None)"
    and i2: "\<And>c p. bfxProxies s c = Some p \<Longrightarrow> \<exists>x. sessions s p = Some x \<and> client x = c"
    and i3: "\<And>p x. sessions s p = Some x \<Longrightarrow> p < ?n"
    and i4: "\<And>p. p \<in> set (closes (effects s)) \<Longrightarrow>
               \<exists>x. sessions s p = Some x \<and> bfxProxies s (client x) \<noteq> Some p"
    and i5: "distinct (closes (effects s))"
    by (auto simp: registry_inv_def)
  have fresh_n: "sessions s ?n = None"
    using i3 [of ?n] by (cases "sessions s ?n") auto
  have a1: "\<forall>c'. (((bfxProxies s)(c \<mapsto> ?n)) c' = None) = (((wssClients s)(c \<mapsto> w)) c' = None)"
    using i1 by simp
  have a2: "\<forall>c' p. ((bfxProxies s)(c \<mapsto> ?n)) c' = Some p \<longrightarrow>
              (\<exists>x. ((sessions s)(?n \<mapsto> \<lparr>client = c, once_open = True\<rparr>)) p = Some x \<and> client x = c')"
  proof (intro allI impI)
    fix c' p assume h: "((bfxProxies s)(c \<mapsto> ?n)) c' = Some p"
    show "\<exists>x. ((sessions s)(?n \<mapsto> \<lparr>client = c, once_open = True\<rparr>)) p = Some x \<and> client x = c'"
    proof (cases "c' = c")
      case True with h show ?thesis by simp
    next
      case False
      with h have "bfxProxies s c' = Some p" by simp
      from i2 [OF this] obtain x where x: "sessions s p = Some x" "client x = c'" by blast
      with fresh_n have "p \<noteq> ?n" by auto
      with x show ?thesis by simp
    qed
  qed
  have a3: "\<forall>p. ((sessions s)(?n \<mapsto> \<lparr>client = c, once_open = True\<rparr>)) p \<noteq> None \<longrightarrow> p < Suc ?n"
    using i3 by (auto simp: less_Suc_eq)
  have a4: "\<forall>p \<in> set (closes (effects s)).
              \<exists>x. ((sessions s)(?n \<mapsto> \<lparr>client = c, once_open = True\<rparr>)) p = Some x \<and>
                  ((bfxProxies s)(c \<mapsto> ?n)) (client x) \<noteq> Some p"
  proof
    fix p assume "p \<in> set (closes (effects s))"
    from i4 [OF this] obtain x where x: "sessions s p = Some x" "bfxProxies s (client x) \<noteq> Some p"
      by blast
    with fresh_n have "p \<noteq> ?n" by auto
    with x show "\<exists>x. ((sessions s)(?n \<mapsto> \<lparr>client = c, once_open = True\<rparr>)) p = Some x \<and>
                  ((bfxProxies s)(c \<mapsto> ?n)) (client x) \<noteq> Some p"
      by auto
  qed
  show ?thesis
    unfolding registry_inv_def onWSConnected_fields using en a1 a2 a3 a4 i5 by simp
qed

lemma registry_inv_disconnect:
  assumes inv: "registry_inv s"
  shows "registry_inv (onWSDisconnected c s)"
proof -
  from inv have i1: "\<And>c. (bfxProxies s c = None) = (wssClients s c = None)"
    and i2: "\<And>c p. bfxProxies s c = Some p \<Longrightarrow> \<exists>x. sessions s p = Some x \<and> client x = c"
    and i3: "\<forall>p. sessions s p \<noteq> None \<longrightarrow> p < next_proxy s"
    and i4: "\<And>p. p \<in> set (closes (effects s)) \<Longrightarrow>
               \<exists>x. sessions s p = Some x \<and> bfxProxies s (client x) \<noteq> Some p"
    and i5: "distinct (closes (effects s))"
    by (auto simp: registry_inv_def)
  let ?new = "case bfxProxies s c of None \<Rightarrow> [] | Some p \<Rightarrow> [p]"
  have a1: "\<forall>c'. (((bfxProxies s)(c := None)) c' = None) = (((wssClients s)(c := None)) c' = None)"
    using i1 by simp
  have a2: "\<forall>c' p. ((bfxProxies s)(c := None)) c' = Some p \<longrightarrow>
              (\<exists>x. sessions s p = Some x \<and> client x = c')"
    using i2 by (auto split: if_splits)
  have a4: "\<forall>p \<in> set (closes (effects s) @ ?new).
              \<exists>x. sessions s p = Some x \<and> ((bfxProxies s)(c := None)) (client x) \<noteq> Some p"
  proof
    fix p assume "p \<in> set (closes (effects s) @ ?new)"
    then consider "p \<in> set (closes (effects s))" | "bfxProxies s c = Some p"
      by (auto split: option.splits)
    then show "\<exists>x. sessions s p = Some x \<and> ((bfxProxies s)(c := None)) (client x) \<noteq> Some p"
    proof cases
      case 1
      from i4 [OF this] show ?thesis by auto
    next
      case 2
      from i2 [OF this] show ?thesis by auto
    qed
  qed
  have a5: "distinct (closes (effects s) @ ?new)"
  proof (cases "bfxProxies s c")
    case None with i5 show ?thesis by simp
  next
    case (Some p)
    from i2 [OF Some] obtain x where x: "sessions s p = Some x" "client x = c" by blast
    have "p \<notin> set (closes (effects s))"
    proof
      assume "p \<in> set (closes (effects s))"
      from i4 [OF this] x Some show False by auto
    qed
    with i5 Some show ?thesis by simp
  qed
  show ?thesis
    unfolding registry_inv_def onWSDisconnected_fields using a1 a2 i3 a4 a5 by blast
qed


lemma no_leak_connect:
  assumes en: "bfxProxyEnabled s" and inv: "registry_inv s" and nl: "no_leak s"
    and fr: "wssClients s c = None"
  shows "no_leak (onWSConnected w c s)"
proof -
  let ?n = "next_proxy s"
  from inv fr have none: "bfxProxies s c = None"
    by (simp add: registry_inv_def)
  have "bfxProxies s (client x) = Some p \<and> client x \<noteq> c \<and> p \<noteq> ?n"
    if "sessions s p = Some x" "p \<notin> set (closes (effects s))" for p x
  proof -
    from nl that have b: "bfxProxies s (client x) = Some p" by (simp add: no_leak_def)
    with none have "client x \<noteq> c" by auto
    moreover from inv that(1) have "p < ?n" by (auto simp: registry_inv_def)
    ultimately show ?thesis using b by simp
  qed
  then show ?thesis
    unfolding no_leak_def onWSConnected_fields using en by (auto split: if_splits)
qed

lemma no_leak_disconnect:
  assumes nl: "no_leak s"
  shows "no_leak (onWSDisconnected c s)"
proof -
  have "((bfxProxies s)(c := None)) (client x) = Some p"
    if "sessions s p = Some x"
      "p \<notin> set (closes (effects s) @ (case bfxProxies s c of None \<Rightarrow> [] | Some p \<Rightarrow> [p]))"
    for p x
  proof -
    from that have "p \<notin> set (closes (effects s))" by simp
    with nl that(1) have b: "bfxProxies s (client x) = Some p" by (simp add: no_leak_def)
    have "client x \<noteq> c"
    proof
      assume "client x = c"
      with b that(2) show False by simp
    qed
    with b show ?thesis by simp
  qed
  then show ?thesis
    unfolding no_leak_def onWSDisconnected_fields by blast
qed

lemma step_enabled: "bfxProxyEnabled (step e s) = bfxProxyEnabled s"
  by (cases e) (simp_all add: onWSConnected_fields onWSDisconnected_fields)

lemma run_registry_inv:
  "bfxProxyEnabled s \<Longrightarrow> registry_inv s \<Longrightarrow> registry_inv (run evs s)"
proof (induction evs arbitrary: s)
  case Nil
  then show ?case by simp
next
  case (Cons e evs)
  have "registry_inv (step e s)"
    using Cons.prems by (cases e) (simp_all add: registry_inv_connect registry_inv_disconnect)
  moreover have "bfxProxyEnabled (step e s)"
    using Cons.prems by (simp add: step_enabled)
  ultimately show ?case using Cons.IH by simp
qed

lemma run_no_leak:
  "bfxProxyEnabled s \<Longrightarrow> registry_inv s \<Longrightarrow> no_leak s \<Longrightarrow> fresh evs s \<Longrightarrow>
   no_leak (run evs s)"
proof (induction evs arbitrary: s)
  case Nil
  then show ?case by simp
next
  case (Cons e evs)
  have inv: "registry_inv (step e s)"
    using Cons.prems by (cases e) (simp_all add: registry_inv_connect registry_inv_disconnect)
  have en: "bfxProxyEnabled (step e s)"
    using Cons.prems by (simp add: step_enabled)
  have nl: "no_leak (step e s)"
    using Cons.prems by (cases e) (simp_all add: no_leak_connect no_leak_disconnect)
  have fr: "fresh evs (step e s)"
    using Cons.prems by (cases e) simp_all
  from Cons.IH [OF en inv nl fr] show ?case by simp
qed

text \<open>
  C2. Proxying is enabled and the server has handled any sequence of connections and
  disconnections. Then the proxy registry and the client registry have the same keys. A
  registered session is the one installed for that client and has not been closed;
  disconnecting the client closes it, once, and a second disconnection closes nothing
  more. No session has been closed twice. When every connection got an identifier that
  was not registered at that moment, a session is closed exactly when it is not the
  registered session of its client, so no client has a second open session.
\<close>

theorem one_session_per_registered_client:
  assumes "arg_proxy a"
  shows "dom (bfxProxies (run evs (DataServer a))) = dom (wssClients (run evs (DataServer a))) \<and>
         (\<forall>c p. bfxProxies (run evs (DataServer a)) c = Some p \<longrightarrow>
            (\<exists>x. sessions (run evs (DataServer a)) p = Some x \<and> client x = c) \<and>
            p \<notin> set (closes (effects (run evs (DataServer a)))) \<and>
            closes (effects (onWSDisconnected c (run evs (DataServer a)))) =
              closes (effects (run evs (DataServer a))) @ [p] \<and>
            closes (effects (onWSDisconnected c (onWSDisconnected c (run evs (DataServer a))))) =
              closes (effects (run evs (DataServer a))) @ [p]) \<and>
         distinct (closes (effects (run evs (DataServer a)))) \<and>
         (fresh evs (DataServer a) \<longrightarrow>
            (\<forall>p x. sessions (run evs (DataServer a)) p = Some x \<longrightarrow>
               (p \<in> set (closes (effects (run evs (DataServer a))))) =
               (bfxProxies (run evs (DataServer a)) (client x) \<noteq> Some p)))"
proof -
  let ?s = "run evs (DataServer a)"
  have en: "bfxProxyEnabled (DataServer a)"
    using assms by (simp add: DataServer_def)
  have inv: "registry_inv ?s"
    using en by (rule run_registry_inv) (rule registry_inv_initial)
  from inv have i1: "\<And>c. (bfxProxies ?s c = None) = (wssClients ?s c = None)"
    and i2: "\<And>c p. bfxProxies ?s c = Some p \<Longrightarrow> \<exists>x. sessions ?s p = Some x \<and> client x = c"
    and i4: "\<And>p. p \<in> set (closes (effects ?s)) \<Longrightarrow>
               \<exists>x. sessions ?s p = Some x \<and> bfxProxies ?s (client x) \<noteq> Some p"
    and i5: "distinct (closes (effects ?s))"
    by (auto simp: registry_inv_def)
  have d: "dom (bfxProxies ?s) = dom (wssClients ?s)"
    using i1 by (auto simp: dom_def)
  have reg: "(\<exists>x. sessions ?s p = Some x \<and> client x = c) \<and>
             p \<notin> set (closes (effects ?s)) \<and>
             closes (effects (onWSDisconnected c ?s)) = closes (effects ?s) @ [p] \<and>
             closes (effects (onWSDisconnected c (onWSDisconnected c ?s))) = closes (effects ?s) @ [p]"
    if b: "bfxProxies ?s c = Some p" for c p
  proof -
    from i2 [OF b] obtain x where x: "sessions ?s p = Some x" "client x = c" by blast
    have "p \<notin> set (closes (effects ?s))"
    proof
      assume "p \<in> set (closes (effects ?s))"
      from i4 [OF this] x b show False by auto
    qed
    with x b show ?thesis by (auto simp: onWSDisconnected_fields)
  qed
  have leak: "(p \<in> set (closes (effects ?s))) = (bfxProxies ?s (client x) \<noteq> Some p)"
    if fr: "fresh evs (DataServer a)" and x: "sessions ?s p = Some x" for p x
  proof -
    have "no_leak ?s"
      using en registry_inv_initial(1) registry_inv_initial(2) fr by (rule run_no_leak)
    with x have "p \<notin> set (closes (effects ?s)) \<Longrightarrow> bfxProxies ?s (client x) = Some p"
      by (simp add: no_leak_def)
    moreover have "p \<in> set (closes (effects ?s)) \<Longrightarrow> bfxProxies ?s (client x) \<noteq> Some p"
      using i4 [of p] x by auto
    ultimately show ?thesis by blast
  qed
  show ?thesis using d reg i5 leak by blast
qed

theorem one_session_per_registered_client_witness:
  "arg_proxy \<lparr>arg_apiKey = None, arg_apiSecret = None, arg_agent = None, arg_restURL = None,
      arg_wsURL = None, arg_transform = None, arg_proxy = True, arg_port = 8899\<rparr> \<and>
   fresh [Connect 1 7, Connect 2 8, Disconnect 7]
     (DataServer \<lparr>arg_apiKey = None, arg_apiSecret = None, arg_agent = None, arg_restURL = None,
        arg_wsURL = None, arg_transform = None, arg_proxy = True, arg_port = 8899\<rparr>) \<and>
   bfxProxies (run [Connect 1 7, Connect 2 8, Disconnect 7]
     (DataServer \<lparr>arg_apiKey = None, arg_apiSecret = None, arg_agent = None, arg_restURL = None,
        arg_wsURL = None, arg_transform = None, arg_proxy = True, arg_port = 8899\<rparr>)) 8 = Some 1 \<and>
   dom (bfxProxies (run [Connect 1 7, Connect 2 8, Disconnect 7]
     (DataServer \<lparr>arg_apiKey = None, arg_apiSecret = None, arg_agent = None, arg_restURL = None,
        arg_wsURL = None, arg_transform = None, arg_proxy = True, arg_port = 8899\<rparr>))) =
   dom (wssClients (run [Connect 1 7, Connect 2 8, Disconnect 7]
     (DataServer \<lparr>arg_apiKey = None, arg_apiSecret = None, arg_agent = None, arg_restURL = None,
        arg_wsURL = None, arg_transform = None, arg_proxy = True, arg_port = 8899\<rparr>))) \<and>
   closes (effects (run [Connect 1 7, Connect 2 8, Disconnect 7]
     (DataServer \<lparr>arg_apiKey = None, arg_apiSecret = None, arg_agent = None, arg_restURL = None,
        arg_wsURL = None, arg_transform = None, arg_proxy = True, arg_port = 8899\<rparr>))) = [0]"
  using one_session_per_registered_client
    [of "\<lparr>arg_apiKey = None, arg_apiSecret = None, arg_agent = None, arg_restURL = None,
          arg_wsURL = None, arg_transform = None, arg_proxy = True, arg_port = 8899\<rparr>"
        "[Connect 1 7, Connect 2 8, Disconnect 7]"]
  by (simp add: onWSConnected_fields onWSDisconnected_fields DataServer_def)

section \<open>Upstream events\<close>

lemma encode_bfx_five: "encode ''bfx'' (JNum 5) = ''[\"bfx\",5]''"
  by code_simp

text \<open>
  C7. A session whose \<^verbatim>\<open>once('open')\<close> listener is still installed receives \<^verbatim>\<open>open\<close>:
  the server logs, and calls \<^verbatim>\<open>auth()\<close> on the session exactly when both \<^verbatim>\<open>apiKey\<close> and
  \<^verbatim>\<open>apiSecret\<close> are truthy. Creating the session does not depend on the credentials,
  and neither does relaying: a \<^verbatim>\<open>message\<close> event for a registered client whose socket is
  open is sent to that socket as a \<^verbatim>\<open>bfx\<close> frame.
\<close>

theorem open_authenticates_iff_credentials:
  assumes "sessions s p = Some x" and "once_open x"
  shows "fst (proxy_emit readyState p Open s) = Returned \<and>
         effects (snd (proxy_emit readyState p Open s)) =
           effects s @ [Debug ''bfx proxy connection opened'']
             @ (if truthy (apiKey (bfxProxyParams s)) \<and> truthy (apiSecret (bfxProxyParams s))
                then [ProxyAuth p] else []) \<and>
         sessions (snd (openBFXProxy c' s)) (fst (openBFXProxy c' s)) =
           Some \<lparr>client = c', once_open = True\<rparr> \<and>
         (wssClients s (client x) = Some w \<and> readyState w = 1 \<longrightarrow>
          proxy_emit readyState p (Message msg) s =
            (Returned,
             s\<lparr>effects := effects s @ [Debug ''proxying message %j to client %s'',
                                        WsSend w (encode ''bfx'' msg)]\<rparr>))"
  using assms
  by (auto simp: proxy_emit_def on_open_def on_message_def emit_def Let_def
        openBFXProxy_creates)

theorem open_authenticates_iff_credentials_witness:
  "sessions
     (onWSConnected 1 7
        (DataServer \<lparr>arg_apiKey = None, arg_apiSecret = None, arg_agent = None,
           arg_restURL = None, arg_wsURL = None, arg_transform = None, arg_proxy = True,
           arg_port = 8899\<rparr>)) 0 = Some \<lparr>client = 7, once_open = True\<rparr> \<and>
   effects (snd (proxy_emit (\<lambda>w. 1) 0 Open
     (onWSConnected 1 7
        (DataServer \<lparr>arg_apiKey = None, arg_apiSecret = None, arg_agent = None,
           arg_restURL = None, arg_wsURL = None, arg_transform = None, arg_proxy = True,
           arg_port = 8899\<rparr>)))) =
     [RestNew, WssNew 8899, WssOn ''connection'',
      Debug ''websocket API open on port %d'', Debug ''ws client connected'',
      WsOn 1 ''message'' 7, WsOn 1 ''close'' 7, ProxyNew 0, ProxyOpen 0,
      WsSend 1 ''[\"connected\"]'', Debug ''bfx proxy connection opened''] \<and>
   frames (effects (snd (proxy_emit (\<lambda>w. 1) 0 (Message (JNum 5))
     (onWSConnected 1 7
        (DataServer \<lparr>arg_apiKey = None, arg_apiSecret = None, arg_agent = None,
           arg_restURL = None, arg_wsURL = None, arg_transform = None, arg_proxy = True,
           arg_port = 8899\<rparr>))))) =
     [(1, ''[\"connected\"]''), (1, ''[\"bfx\",5]'')] \<and>
   effects (snd (proxy_emit (\<lambda>w. 1) 0 Open
     (onWSConnected 1 7
        (DataServer \<lparr>arg_apiKey = Some ''key'', arg_apiSecret = Some ''secret'', arg_agent = None,
           arg_restURL = None, arg_wsURL = None, arg_transform = None, arg_proxy = True,
           arg_port = 8899\<rparr>)))) =
     [RestNew, WssNew 8899, WssOn ''connection'',
      Debug ''websocket API open on port %d'', Debug ''ws client connected'',
      WsOn 1 ''message'' 7, WsOn 1 ''close'' 7, ProxyNew 0, ProxyOpen 0,
      WsSend 1 ''[\"connected\"]'', Debug ''bfx proxy connection opened'', ProxyAuth 0]"
  using open_authenticates_iff_credentials
    [of "onWSConnected 1 7
          (DataServer \<lparr>arg_apiKey = None, arg_apiSecret = None, arg_agent = None,
             arg_restURL = None, arg_wsURL = None, arg_transform = None, arg_proxy = True,
             arg_port = 8899\<rparr>)"
        0 "\<lparr>client = 7, once_open = True\<rparr>" "\<lambda>w. 1" 7 1 "JNum 5"]
    open_authenticates_iff_credentials
    [of "onWSConnected 1 7
          (DataServer \<lparr>arg_apiKey = Some ''key'', arg_apiSecret = Some ''secret'', arg_agent = None,
             arg_restURL = None, arg_wsURL = None, arg_transform = None, arg_proxy = True,
             arg_port = 8899\<rparr>)"
        0 "\<lparr>client = 7, once_open = True\<rparr>" "\<lambda>w. 1" 7 1 "JNum 5"]
  by (simp add: onWSConnected_def openBFXProxy_creates send_def emit_def Let_def DataServer_def
        truthy_def encode_bfx_five quote_string_def quote_char_def)

text \<open>
  C1. Proxying is enabled; a client connects and disconnects, and then its session
  emits a \<^verbatim>\<open>message\<close> event. The listener finds no socket under the client's identifier
  and reads \<^verbatim>\<open>readyState\<close> of \<^verbatim>\<open>undefined\<close>: a TypeError is thrown out of the listener.
\<close>

theorem message_after_disconnect_throws:
  "proxy_emit readyState 0 (Message msg)
     (run [Connect w c, Disconnect c] (DataServer (a\<lparr>arg_proxy := True\<rparr>))) =
   (Threw TypeError, run [Connect w c, Disconnect c] (DataServer (a\<lparr>arg_proxy := True\<rparr>)))"
  by (simp add: proxy_emit_def on_message_def onWSConnected_def onWSDisconnected_def
        onWSDisconnected_steps_def openBFXProxy_def send_def emit_def DataServer_def Let_def)

text \<open>The other half of the guard: a registered socket that is not open gets nothing.\<close>

lemma message_for_closed_socket_is_dropped:
  "sessions s p = Some x \<Longrightarrow> wssClients s (client x) = Some w \<Longrightarrow> readyState w \<noteq> 1 \<Longrightarrow>
   proxy_emit readyState p (Message msg) s = (Returned, s)"
  by (simp add: proxy_emit_def on_message_def)

text \<open>Once the \<^verbatim>\<open>once('open')\<close> listener has run, a later \<^verbatim>\<open>open\<close> event only logs.\<close>

lemma open_again_only_logs:
  "sessions s p = Some x \<Longrightarrow> \<not> once_open x \<Longrightarrow>
   proxy_emit readyState p Open s =
     (Returned, s\<lparr>effects := effects s @ [Debug ''bfx proxy connection opened'']\<rparr>)"
  by (simp add: proxy_emit_def on_open_def emit_def Let_def)

section \<open>The codec\<close>

subsection \<open>Numbers\<close>


















subsection \<open>Strings and tokens\<close>








lemma stringify_elems_Nil [simp]: "(stringify_elems xs = []) = (xs = [])"
  by (cases xs) simp_all

lemma stringify_props_Nil [simp]: "(stringify_props kvs = []) = (kvs = [])"
  by (cases kvs) simp_all





subsection \<open>The stack machine\<close>












end
